theory Spec2Isabelle
  imports Complex_Main "HOL-Library.AList" "HOL-Library.Multiset"
begin

section \<open>The bingo session server (server/server.js)\<close>

text \<open>
  The development embeds the websocket part of \<^verbatim>\<open>server/server.js\<close>: the theme
  catalog, the card generator, the process-wide \<^verbatim>\<open>games\<close> map and the two listeners
  installed on every connection (\<^verbatim>\<open>message\<close> and \<^verbatim>\<open>close\<close>).

  Conventions of the embedding.
  \<^item> An inbound frame is unparseable, the JSON value \<^verbatim>\<open>null\<close>, or an envelope
    (\<open>frame\<close>). A field of an envelope is a JSON primitive or absent (\<open>jsval\<close>); a
    field holding an object or an array is outside the model. Numbers are the values
    \<^verbatim>\<open>JSON.parse\<close> produced, taken as rationals; \<^verbatim>\<open>-0\<close> and \<^verbatim>\<open>0\<close> name the same
    property, as they do in JavaScript.
  \<^item> A JavaScript \<^verbatim>\<open>Map\<close> is an association list in insertion order:
    \<^verbatim>\<open>set\<close> is \<open>AList.update\<close> (an existing key keeps its place, a new key goes to the
    end), \<^verbatim>\<open>get\<close> is \<open>map_of\<close>, \<^verbatim>\<open>delete\<close> is \<open>AList.delete\<close>.
  \<^item> Objects held in a map are mutated in place by the source; the model writes the
    changed object back under the key it was fetched with.
  \<^item> \<^verbatim>\<open>Math.random()\<close> is an oracle \<open>rnd\<close> read at a running position; the index
    \<^verbatim>\<open>Math.floor(Math.random() * n)\<close> ranges over \<open>0..n-1\<close> and is modelled as
    \<open>rnd k mod n\<close>. \<^verbatim>\<open>Date.now()\<close> is the field \<open>now\<close> of the environment.
  \<^item> An exception that leaves a listener is a value \<open>Inl TypeError\<close>. Nothing in
    server.js catches it, so the model has no successor state for that event.
  \<^item> An output is a call of \<^verbatim>\<open>send\<close> on a socket, recorded with the object that was
    serialised; \<^verbatim>\<open>JSON.stringify\<close> and \<^verbatim>\<open>send\<close> themselves are taken to return.
\<close>

subsection \<open>JSON values\<close>

datatype jsval = JUndefined | JNull | JBool bool | JNum rat | JStr string

datatype jserror = TypeError

text \<open>Truthiness, as used by \<^verbatim>\<open>!x\<close>, \<^verbatim>\<open>!!x\<close> and \<^verbatim>\<open>x && y\<close>.\<close>

fun truthy :: "jsval \<Rightarrow> bool" where
  "truthy JUndefined = False"
| "truthy JNull = False"
| "truthy (JBool b) = b"
| "truthy (JNum x) = (x \<noteq> 0)"
| "truthy (JStr s) = (s \<noteq> [])"

text \<open>A destructuring default \<^verbatim>\<open>{ f = d } = msg\<close> replaces only \<^verbatim>\<open>undefined\<close>.\<close>

definition with_default :: "jsval \<Rightarrow> jsval \<Rightarrow> jsval" where
  "with_default d v = (if v = JUndefined then d else v)"

subsection \<open>Theme catalog\<close>

definition ds9_items :: "string list" where
  "ds9_items =
    [''Rule of acquisition'',
     ''Sexual tension between Odo and Quark'',
     ''Pretend to be nice to Cardassians'',
     ''Miles and Keiko disagree / argue'',
     ''Jake and Nog sit above promenade'',
     ''Odo shapeshifts'',
     ''Sisko misgenders Jadzia'',
     ''Gaslighting'',
     ''Morn!'',
     ''Flashing light'',
     ''Kira in just her tank top'',
     ''Bashir gets pushed against a wall'',
     ''Racism'',
     ''Odo accuses Quark'',
     ''Sisko sits on his little couch'',
     ''Odo is authoritarian'',
     ''Problem could be solved with CCTV'',
     ''Baseball mentioned / Baseball shown'',
     ''Prophets mentioned'',
     ''Wormhole gets used'',
     ''Odo solves the problem'',
     ''Dabo girl mentioned'',
     ''Quark moans'',
     ''Cardassian politics mentioned'']"

text \<open>
  \<^verbatim>\<open>THEMES\<close> is an object literal, so \<^verbatim>\<open>THEMES[key]\<close> also finds what the literal
  inherits from \<^verbatim>\<open>Object.prototype\<close>. Such a value is truthy, has no \<^verbatim>\<open>items\<close>, and
  carries a \<^verbatim>\<open>name\<close> only when it is a function.
\<close>

datatype themes_value =
    ThemeObj string "string list"
  | InheritedProp "string option"
  | NoProp

definition object_prototype_functions :: "string list" where
  "object_prototype_functions =
    [''__defineGetter__'', ''__defineSetter__'', ''hasOwnProperty'', ''__lookupGetter__'',
     ''__lookupSetter__'', ''isPrototypeOf'', ''propertyIsEnumerable'', ''toString'',
     ''valueOf'', ''toLocaleString'']"

definition THEMES :: "string \<Rightarrow> themes_value" where
  "THEMES key =
    (if key = ''ds9'' then ThemeObj ''Star Trek: Deep Space Nine'' ds9_items
     else if key = ''constructor'' then InheritedProp (Some ''Object'')
     else if key = ''__proto__'' then InheritedProp None
     else if key \<in> set object_prototype_functions then InheritedProp (Some key)
     else NoProp)"

text \<open>
  \<^verbatim>\<open>THEMES[theme]\<close> for a field value: a string is the key itself; the key of any other
  primitive (\<^verbatim>\<open>"true"\<close>, \<^verbatim>\<open>"null"\<close>, a number's digits) names no property.
\<close>

fun THEMES_at :: "jsval \<Rightarrow> themes_value" where
  "THEMES_at (JStr key) = THEMES key"
| "THEMES_at _ = NoProp"

subsection \<open>Shuffling and card generation\<close>

type_synonym rng = "nat \<Rightarrow> nat"

text \<open>\<^verbatim>\<open>[array[i], array[j]] = [array[j], array[i]]\<close>\<close>

definition swap_at :: "nat \<Rightarrow> nat \<Rightarrow> 'a list \<Rightarrow> 'a list" where
  "swap_at i j xs = (xs[i := xs ! j])[j := xs ! i]"

text \<open>
  \<^verbatim>\<open>for (let i = array.length - 1; i > 0; i--)\<close>: the third argument is \<open>i\<close>, the
  second the position of the next oracle read.
\<close>

fun shuffle_loop :: "rng \<Rightarrow> nat \<Rightarrow> nat \<Rightarrow> 'a list \<Rightarrow> 'a list \<times> nat" where
  "shuffle_loop rnd k 0 xs = (xs, k)"
| "shuffle_loop rnd k (Suc n) xs =
     (let i = Suc n; j = rnd k mod (i + 1)
      in shuffle_loop rnd (Suc k) n (swap_at i j xs))"

definition shuffle :: "rng \<Rightarrow> nat \<Rightarrow> 'a list \<Rightarrow> 'a list \<times> nat" where
  "shuffle rnd k xs = shuffle_loop rnd k (length xs - 1) xs"

definition createPoolFromTheme :: "rng \<Rightarrow> nat \<Rightarrow> jsval \<Rightarrow> string list \<times> nat" where
  "createPoolFromTheme rnd k themeKey =
    (case THEMES_at themeKey of
       ThemeObj nm items \<Rightarrow> shuffle rnd k items
     | InheritedProp nm \<Rightarrow> ([], k)
     | NoProp \<Rightarrow> ([], k))"

text \<open>A card cell holds the number \<^verbatim>\<open>0\<close> (the free centre) or a string.\<close>

datatype cell = CNum int | CStr string

type_synonym card = "cell list list"

definition empty_card :: card where
  "empty_card = replicate 5 (replicate 5 (CStr ''''))"

definition set_cell :: "nat \<Rightarrow> nat \<Rightarrow> 'a \<Rightarrow> 'a list list \<Rightarrow> 'a list list" where
  "set_cell r c v g = g[r := (g ! r)[c := v]]"

text \<open>The order in which the two nested \<^verbatim>\<open>for\<close> loops visit the grid.\<close>

definition cells_row_major :: "(nat \<times> nat) list" where
  "cells_row_major = concat (map (\<lambda>r. map (\<lambda>c. (r, c)) [0..<5]) [0..<5])"

text \<open>
  The body of the themed loop over the remaining cells: the state is the card, the
  shuffled copy \<^verbatim>\<open>pool\<close> (popped from its end) and the oracle position.
\<close>

fun fill_themed ::
  "string list \<Rightarrow> rng \<Rightarrow> (nat \<times> nat) list \<Rightarrow> card \<times> string list \<times> nat \<Rightarrow> card \<times> string list \<times> nat"
where
  "fill_themed themeItems rnd [] st = st"
| "fill_themed themeItems rnd ((r, c) # ps) (crd, pool, k) =
     (if r = 2 \<and> c = 2 then
        fill_themed themeItems rnd ps (set_cell r c (CNum 0) crd, pool, k)
      else if length pool > 0 then
        fill_themed themeItems rnd ps (set_cell r c (CStr (last pool)) crd, butlast pool, k)
      else
        fill_themed themeItems rnd ps
          (set_cell r c (CStr (themeItems ! (rnd k mod length themeItems))) crd, pool, Suc k))"

fun fill_blank :: "(nat \<times> nat) list \<Rightarrow> card \<Rightarrow> card" where
  "fill_blank [] crd = crd"
| "fill_blank ((r, c) # ps) crd =
     (if r = 2 \<and> c = 2 then fill_blank ps (set_cell r c (CNum 0) crd)
      else fill_blank ps (set_cell r c (CStr '''') crd))"

text \<open>
  \<open>None\<close> is a \<^verbatim>\<open>themeItems\<close> that is not an array (a room without a theme passes
  \<^verbatim>\<open>undefined\<close>).
\<close>

definition generateCard :: "rng \<Rightarrow> nat \<Rightarrow> string list option \<Rightarrow> card \<times> nat" where
  "generateCard rnd k themeItems =
    (case themeItems of
       None \<Rightarrow> (fill_blank cells_row_major empty_card, k)
     | Some items \<Rightarrow>
         if length items > 0 then
           (let (pool, k1) = shuffle rnd k items;
                (crd, rest, k2) = fill_themed items rnd cells_row_major (empty_card, pool, k1)
            in (crd, k2))
         else (fill_blank cells_row_major empty_card, k))"

subsection \<open>Rooms, players and connections\<close>

text \<open>
  A row of a mark grid is a JavaScript array of booleans. An assignment \<^verbatim>\<open>row[c] = b\<close>
  with a number \<open>c\<close> stores under the property named by \<open>c\<close>, whatever \<open>c\<close> is, so a row
  is an association list from numbers to booleans. The array of rows is created with
  five entries and is never assigned to.
\<close>

type_synonym row = "(rat \<times> bool) list"

type_synonym marks = "row list"

definition fresh_row :: row where
  "fresh_row = [(0, False), (1, False), (2, False), (3, False), (4, False)]"

text \<open>\<^verbatim>\<open>Array.from({ length: 5 }, () => Array(5).fill(false))\<close>\<close>

definition fresh_marks :: marks where
  "fresh_marks = replicate 5 fresh_row"

text \<open>
  \<^verbatim>\<open>marks[r]\<close> for a number \<open>r\<close>: an entry of the array when \<open>r\<close> is one of its indices,
  \<^verbatim>\<open>undefined\<close> (\<open>None\<close>) otherwise.
\<close>

definition marks_row :: "marks \<Rightarrow> rat \<Rightarrow> row option" where
  "marks_row m r =
    (if 0 \<le> r \<and> of_int \<lfloor>r\<rfloor> = r \<and> nat \<lfloor>r\<rfloor> < length m then Some (m ! nat \<lfloor>r\<rfloor>) else None)"

text \<open>
  \<^verbatim>\<open>marks[r][c] = b\<close>: writing a property of \<^verbatim>\<open>undefined\<close> throws a TypeError.
\<close>

definition marks_assign :: "marks \<Rightarrow> rat \<Rightarrow> rat \<Rightarrow> bool \<Rightarrow> jserror + marks" where
  "marks_assign m r c b =
    (case marks_row m r of
       None \<Rightarrow> Inl TypeError
     | Some rw \<Rightarrow> Inr (m[nat \<lfloor>r\<rfloor> := AList.update c b rw]))"

text \<open>
  \<^verbatim>\<open>marks[r][c]\<close> read by the loop counters of \<^verbatim>\<open>isCardComplete\<close>: \<open>None\<close> when the row
  is missing (the read throws), otherwise the truthiness of the entry, a missing entry
  being \<^verbatim>\<open>undefined\<close>.
\<close>

definition mark_truthy :: "marks \<Rightarrow> nat \<Rightarrow> nat \<Rightarrow> bool option" where
  "mark_truthy m r c =
    (case marks_row m (of_nat r) of
       None \<Rightarrow> None
     | Some rw \<Rightarrow> (case map_of rw (of_nat c) of None \<Rightarrow> Some False | Some b \<Rightarrow> Some b))"

record player =
  p_id :: string
  p_name :: jsval
  p_socket :: nat
  p_card :: card
  p_marks :: marks

datatype status = Lobby | Ended

text \<open>
  \<open>hostId = None\<close> is \<^verbatim>\<open>null\<close>. \<open>themeName\<close> and \<open>themeItems\<close> are properties the game
  object does not have until a join adds them (\<open>JUndefined\<close>, \<open>None\<close>).
\<close>

record game =
  gameId :: jsval
  status :: status
  hostId :: "string option"
  players :: "(string \<times> player) list"
  numbersCalled :: "string list"
  numberPool :: "string list"
  createdAt :: nat
  updatedAt :: nat
  themeName :: jsval
  themeItems :: "string list option"

type_synonym registry = "(jsval \<times> game) list"

text \<open>
  A connection: the socket object's identity, the \<^verbatim>\<open>ws.id\<close> drawn when it connected,
  and the two properties a join attaches (\<open>None\<close>, \<open>JUndefined\<close> before).
\<close>

record conn =
  ws_sock :: nat
  ws_id :: string
  ws_playerId :: "string option"
  ws_gameId :: jsval

text \<open>The parsed envelope, read through the destructuring patterns of the listener.\<close>

record msg =
  m_type :: jsval
  m_gameId :: jsval
  m_name :: jsval
  m_theme :: jsval
  m_create :: jsval
  m_r :: jsval
  m_c :: jsval
  m_marked :: jsval

record env =
  is_open :: "nat \<Rightarrow> bool"
  now :: nat
  rnd :: rng

subsection \<open>Outbound messages\<close>

record snapshot =
  s_gameId :: jsval
  s_status :: status
  s_hostId :: "string option"
  s_themeKey :: jsval
  s_themeDisplayName :: "string option"
  s_players :: "(string \<times> jsval \<times> card \<times> marks) list"
  s_numbersCalled :: "string list"

datatype payload =
    GameExists bool "snapshot option"
  | Joined string snapshot
  | State snapshot
  | Bingo string jsval
  | Error string

type_synonym out = "nat \<times> payload"

definition serializeGame :: "game \<Rightarrow> snapshot" where
  "serializeGame g =
    \<lparr> s_gameId = gameId g,
      s_status = status g,
      s_hostId = hostId g,
      s_themeKey = (if truthy (themeName g) then themeName g else JNull),
      s_themeDisplayName =
        (if truthy (themeName g) then
           (case THEMES_at (themeName g) of
              ThemeObj nm items \<Rightarrow> Some nm
            | InheritedProp nm \<Rightarrow> nm
            | NoProp \<Rightarrow> None)
         else None),
      s_players = map (\<lambda>p. (p_id p, p_name p, p_card p, p_marks p)) (map snd (players g)),
      s_numbersCalled = numbersCalled g \<rparr>"

text \<open>Every player whose socket is open, in the order of the player map.\<close>

definition open_sockets :: "env \<Rightarrow> game \<Rightarrow> nat list" where
  "open_sockets e g = map p_socket (filter (\<lambda>p. is_open e (p_socket p)) (map snd (players g)))"

definition broadcastGame :: "env \<Rightarrow> game \<Rightarrow> out list" where
  "broadcastGame e g = map (\<lambda>s. (s, State (serializeGame g))) (open_sockets e g)"

definition sendError :: "env \<Rightarrow> conn \<Rightarrow> string \<Rightarrow> out list" where
  "sendError e ws message = (if is_open e (ws_sock ws) then [(ws_sock ws, Error message)] else [])"

subsection \<open>Registry and win rule\<close>

definition new_game :: "env \<Rightarrow> jsval \<Rightarrow> game" where
  "new_game e gid =
    \<lparr> gameId = gid, status = Lobby, hostId = None, players = [], numbersCalled = [],
      numberPool = [], createdAt = now e, updatedAt = now e,
      themeName = JUndefined, themeItems = None \<rparr>"

text \<open>\<^verbatim>\<open>function getOrCreateGame(gameId = "default")\<close>\<close>

definition getOrCreateGame :: "env \<Rightarrow> registry \<Rightarrow> jsval \<Rightarrow> registry \<times> game" where
  "getOrCreateGame e games gameId0 =
    (let gid = with_default (JStr ''default'') gameId0 in
     case map_of games gid of
       None \<Rightarrow> (let g = new_game e gid in (AList.update gid g games, g))
     | Some g \<Rightarrow> (games, g))"

text \<open>
  The two loops of \<^verbatim>\<open>isCardComplete\<close> over the cells still to visit; the first falsy
  cell returns \<^verbatim>\<open>false\<close>.
\<close>

fun scan_marks :: "marks \<Rightarrow> (nat \<times> nat) list \<Rightarrow> jserror + bool" where
  "scan_marks m [] = Inr True"
| "scan_marks m ((r, c) # ps) =
     (if r = 2 \<and> c = 2 then scan_marks m ps
      else (case mark_truthy m r c of
              None \<Rightarrow> Inl TypeError
            | Some b \<Rightarrow> if \<not> b then Inr False else scan_marks m ps))"

definition isCardComplete :: "player \<Rightarrow> jserror + bool" where
  "isCardComplete p = scan_marks (p_marks p) cells_row_major"

subsection \<open>The message listener\<close>

type_synonym reply = "jserror + (registry \<times> conn \<times> out list)"

text \<open>
  The fields \<^verbatim>\<open>gameId = "default"\<close>, \<^verbatim>\<open>name = "Anonymous"\<close> and \<^verbatim>\<open>theme = null\<close> as the
  destructuring patterns of \<^verbatim>\<open>probe\<close> and \<^verbatim>\<open>join\<close> bind them.
\<close>

definition gameId_of :: "msg \<Rightarrow> jsval" where
  "gameId_of m = with_default (JStr ''default'') (m_gameId m)"

definition name_of :: "msg \<Rightarrow> jsval" where
  "name_of m = with_default (JStr ''Anonymous'') (m_name m)"

definition theme_of :: "msg \<Rightarrow> jsval" where
  "theme_of m = with_default JNull (m_theme m)"

definition handle_probe :: "env \<Rightarrow> registry \<Rightarrow> conn \<Rightarrow> msg \<Rightarrow> reply" where
  "handle_probe e games ws m =
    (let gid = gameId_of m in
     case map_of games gid of
       Some g \<Rightarrow> Inr (games, ws, [(ws_sock ws, GameExists True (Some (serializeGame g)))])
     | None \<Rightarrow> Inr (games, ws, [(ws_sock ws, GameExists False None)]))"

text \<open>
  The theme step of a join. On an inherited key the source has already stored
  \<^verbatim>\<open>themeName\<close> when \<^verbatim>\<open>THEMES[theme].items.slice()\<close> throws.
\<close>

definition apply_theme :: "env \<Rightarrow> nat \<Rightarrow> jsval \<Rightarrow> game \<Rightarrow> jserror + (game \<times> nat)" where
  "apply_theme e k theme g =
    (if truthy theme \<and> \<not> truthy (themeName g) then
       (case THEMES_at theme of
          ThemeObj nm items \<Rightarrow>
            (let (pool, k') = createPoolFromTheme (rnd e) k theme
             in Inr (g\<lparr>themeName := theme, themeItems := Some items, numberPool := pool\<rparr>, k'))
        | InheritedProp nm \<Rightarrow> Inl TypeError
        | NoProp \<Rightarrow> Inr (g, k))
     else Inr (g, k))"

definition handle_join :: "env \<Rightarrow> registry \<Rightarrow> conn \<Rightarrow> msg \<Rightarrow> reply" where
  "handle_join e games ws m =
    (let gid = gameId_of m;
         name = name_of m;
         theme = theme_of m;
         (games1, g0) = (case map_of games gid of
                           None \<Rightarrow> getOrCreateGame e games gid
                         | Some g \<Rightarrow> (games, g))
     in case apply_theme e 0 theme g0 of
          Inl err \<Rightarrow> Inl err
        | Inr (g1, k1) \<Rightarrow>
            (let playerId = ws_id ws;
                 (crd, k2) = generateCard (rnd e) k1 (themeItems g1);
                 pl = \<lparr> p_id = playerId, p_name = name, p_socket = ws_sock ws, p_card = crd,
                        p_marks = fresh_marks[2 := AList.update 2 True (fresh_marks ! 2)] \<rparr>;
                 g2 = g1\<lparr>players := AList.update playerId pl (players g1)\<rparr>;
                 g3 = (if hostId g2 = None \<or> hostId g2 = Some [] then g2\<lparr>hostId := Some playerId\<rparr>
                       else g2);
                 g4 = g3\<lparr>updatedAt := now e\<rparr>;
                 ws' = ws\<lparr>ws_playerId := Some playerId, ws_gameId := gid\<rparr>
             in Inr (AList.update gid g4 games1, ws',
                     (ws_sock ws, Joined playerId (serializeGame g4)) # broadcastGame e g4)))"

definition handle_mark :: "env \<Rightarrow> registry \<Rightarrow> conn \<Rightarrow> jsval \<Rightarrow> game \<Rightarrow> string \<Rightarrow> player \<Rightarrow> msg \<Rightarrow> reply"
where
  "handle_mark e games ws gid g pid pl m =
    (case (m_r m, m_c m) of
       (JNum r, JNum c) \<Rightarrow>
         (case marks_assign (p_marks pl) r c (truthy (m_marked m)) of
            Inl err \<Rightarrow> Inl err
          | Inr mk \<Rightarrow>
              (let g' = g\<lparr>players := AList.update pid (pl\<lparr>p_marks := mk\<rparr>) (players g),
                          updatedAt := now e\<rparr>
               in Inr (AList.update gid g' games, ws, broadcastGame e g')))
     | _ \<Rightarrow> Inr (games, ws, sendError e ws ''invalid_mark''))"

definition handle_request_bingo ::
  "env \<Rightarrow> registry \<Rightarrow> conn \<Rightarrow> jsval \<Rightarrow> game \<Rightarrow> player \<Rightarrow> reply"
where
  "handle_request_bingo e games ws gid g pl =
    (case isCardComplete pl of
       Inl err \<Rightarrow> Inl err
     | Inr valid \<Rightarrow>
         if valid then
           (let g' = g\<lparr>status := Ended, updatedAt := now e\<rparr>
            in Inr (AList.update gid g' games, ws,
                    map (\<lambda>s. (s, Bingo (p_id pl) (p_name pl))) (open_sockets e g')
                    @ broadcastGame e g'))
         else Inr (games, ws, sendError e ws ''invalid_bingo''))"

text \<open>
  The body of \<^verbatim>\<open>ws.on("message", ...)\<close> from \<^verbatim>\<open>const { type } = msg\<close> on, for a parse
  result other than \<^verbatim>\<open>null\<close>, read through its properties.
  \<^verbatim>\<open>game.players.get(undefined)\<close> finds nothing, since every key is a string.
\<close>

definition on_message :: "env \<Rightarrow> registry \<Rightarrow> conn \<Rightarrow> msg \<Rightarrow> reply" where
  "on_message e games ws m =
    (if m_type m = JStr ''probe'' then handle_probe e games ws m
     else if m_type m = JStr ''join'' then handle_join e games ws m
     else if \<not> truthy (ws_gameId ws) then Inr (games, ws, sendError e ws ''not_joined'')
     else (case map_of games (ws_gameId ws) of
             None \<Rightarrow> Inr (games, ws, sendError e ws ''game_not_found'')
           | Some g \<Rightarrow>
               (case ws_playerId ws of
                  None \<Rightarrow> Inr (games, ws, sendError e ws ''player_not_found'')
                | Some pid \<Rightarrow>
                    (case map_of (players g) pid of
                       None \<Rightarrow> Inr (games, ws, sendError e ws ''player_not_found'')
                     | Some pl \<Rightarrow>
                         if m_type m = JStr ''mark'' then
                           handle_mark e games ws (ws_gameId ws) g pid pl m
                         else if m_type m = JStr ''request_bingo'' then
                           handle_request_bingo e games ws (ws_gameId ws) g pl
                         else Inr (games, ws, sendError e ws ''unknown_message_type'')))))"

text \<open>
  The whole listener, from the raw frame. \<^verbatim>\<open>JSON.parse\<close> throws inside the
  \<^verbatim>\<open>try\<close> and the listener answers \<^verbatim>\<open>invalid_json\<close>; it returns \<^verbatim>\<open>null\<close> for the frame
  \<^verbatim>\<open>null\<close>, and \<^verbatim>\<open>const { type } = msg\<close>, which stands outside the \<^verbatim>\<open>try\<close>, throws a
  TypeError; any other result is read through its properties. A parsed number,
  string, boolean or array has none of the properties the listener reads, so it is a
  \<open>Parsed\<close> envelope whose fields are all \<open>JUndefined\<close>.
\<close>

datatype frame = Unparseable | ParsedNull | Parsed msg

definition on_frame :: "env \<Rightarrow> registry \<Rightarrow> conn \<Rightarrow> frame \<Rightarrow> reply" where
  "on_frame e games ws fr =
    (case fr of
       Unparseable \<Rightarrow> Inr (games, ws, sendError e ws ''invalid_json'')
     | ParsedNull \<Rightarrow> Inl TypeError
     | Parsed m \<Rightarrow> on_message e games ws m)"

subsection \<open>The close listener\<close>

text \<open>
  \<^verbatim>\<open>game.hostId === pid\<close> is false for \<^verbatim>\<open>null === undefined\<close>;
  \<^verbatim>\<open>game.players.keys().next()\<close> is the first key in insertion order.
\<close>

definition on_close :: "env \<Rightarrow> registry \<Rightarrow> conn \<Rightarrow> registry \<times> out list" where
  "on_close e games ws =
    (if \<not> truthy (ws_gameId ws) then (games, [])
     else (case map_of games (ws_gameId ws) of
             None \<Rightarrow> (games, [])
           | Some g \<Rightarrow>
               (let pid = ws_playerId ws;
                    ps = (case pid of None \<Rightarrow> players g | Some p \<Rightarrow> AList.delete p (players g));
                    g1 = g\<lparr>players := ps\<rparr>;
                    g2 = (if pid \<noteq> None \<and> hostId g1 = pid then
                            g1\<lparr>hostId := (case ps of [] \<Rightarrow> None | kv # rest \<Rightarrow> Some (fst kv))\<rparr>
                          else g1);
                    g3 = g2\<lparr>updatedAt := now e\<rparr>
                in (AList.update (ws_gameId ws) g3 games, broadcastGame e g3))))"

subsection \<open>Runs, observers and the notions the properties are stated with\<close>

text \<open>One connection's listener run on successive messages; the outputs are collected.\<close>

fun run_messages :: "env \<Rightarrow> registry \<Rightarrow> conn \<Rightarrow> msg list \<Rightarrow> reply" where
  "run_messages e games ws [] = Inr (games, ws, [])"
| "run_messages e games ws (m # ms) =
     (case on_message e games ws m of
        Inl err \<Rightarrow> Inl err
      | Inr (games', ws', outs) \<Rightarrow>
          (case run_messages e games' ws' ms of
             Inl err \<Rightarrow> Inl err
           | Inr (games'', ws'', outs') \<Rightarrow> Inr (games'', ws'', outs @ outs')))"

definition reply_games :: "reply \<Rightarrow> registry option" where
  "reply_games rp = (case rp of Inl err \<Rightarrow> None | Inr (games, ws, outs) \<Rightarrow> Some games)"

definition reply_outs :: "reply \<Rightarrow> out list" where
  "reply_outs rp = (case rp of Inl err \<Rightarrow> [] | Inr (games, ws, outs) \<Rightarrow> outs)"

text \<open>The room a reply leaves under a key, and a player of it.\<close>

definition reply_room :: "reply \<Rightarrow> jsval \<Rightarrow> game option" where
  "reply_room rp gid = (case reply_games rp of None \<Rightarrow> None | Some games \<Rightarrow> map_of games gid)"

definition reply_player :: "reply \<Rightarrow> jsval \<Rightarrow> string \<Rightarrow> player option" where
  "reply_player rp gid pid =
    (case reply_room rp gid of None \<Rightarrow> None | Some g \<Rightarrow> map_of (players g) pid)"

text \<open>
  The room a join works on (the stored one, or the one \<^verbatim>\<open>getOrCreateGame\<close> makes) and
  the room it writes back once the theme step has returned \<open>g1\<close> and the oracle
  position \<open>k1\<close>.
\<close>

definition room_before :: "env \<Rightarrow> registry \<Rightarrow> jsval \<Rightarrow> game" where
  "room_before e games gid = (case map_of games gid of None \<Rightarrow> new_game e gid | Some g \<Rightarrow> g)"

definition joined_room :: "env \<Rightarrow> conn \<Rightarrow> msg \<Rightarrow> game \<Rightarrow> nat \<Rightarrow> game" where
  "joined_room e ws m g1 k1 =
    (let pl = \<lparr> p_id = ws_id ws, p_name = name_of m, p_socket = ws_sock ws,
                p_card = fst (generateCard (rnd e) k1 (themeItems g1)),
                p_marks = fresh_marks[2 := AList.update 2 True (fresh_marks ! 2)] \<rparr>;
         g2 = g1\<lparr>players := AList.update (ws_id ws) pl (players g1)\<rparr>;
         g3 = (if hostId g2 = None \<or> hostId g2 = Some [] then g2\<lparr>hostId := Some (ws_id ws)\<rparr>
               else g2)
     in g3\<lparr>updatedAt := now e\<rparr>)"

fun is_bingo :: "out \<Rightarrow> bool" where
  "is_bingo (s, Bingo pid nm) = True"
| "is_bingo (s, other) = False"

text \<open>The value stored in cell \<open>(r, c)\<close> of a mark grid, if the cell exists.\<close>

definition mark_at :: "marks \<Rightarrow> nat \<Rightarrow> nat \<Rightarrow> bool option" where
  "mark_at m r c = (if r < length m then map_of (m ! r) (of_nat c) else None)"

text \<open>
  The completion rule in the specification's words: each of the 24 cells other than
  \<open>(2, 2)\<close> holds \<^verbatim>\<open>true\<close>.
\<close>

definition all_nonfree_marked :: "marks \<Rightarrow> bool" where
  "all_nonfree_marked m =
    (\<forall>r \<in> set [0..<5]. \<forall>c \<in> set [0..<5]. (r, c) \<noteq> (2, 2) \<longrightarrow> mark_at m r c = Some True)"



text \<open>The cells of a card other than the centre, in the order they are visited.\<close>

definition nonfree :: "nat \<times> nat \<Rightarrow> bool" where
  "nonfree p = (\<not> (fst p = 2 \<and> snd p = 2))"

definition cells_of :: "card \<Rightarrow> (nat \<times> nat) list \<Rightarrow> cell list" where
  "cells_of crd ps = map (\<lambda>(r, c). crd ! r ! c) (filter nonfree ps)"

definition nonfree_cells :: "card \<Rightarrow> cell list" where
  "nonfree_cells crd = cells_of crd cells_row_major"

definition in_grid :: "(nat \<times> nat) list \<Rightarrow> bool" where
  "in_grid ps = (\<forall>(r, c) \<in> set ps. r < 5 \<and> c < 5)"

definition is_grid5 :: "'a list list \<Rightarrow> bool" where
  "is_grid5 g = (length g = 5 \<and> list_all (\<lambda>rw. length rw = 5) g)"

subsection \<open>Sample inputs\<close>

definition blank_msg :: msg where
  "blank_msg =
    \<lparr> m_type = JUndefined, m_gameId = JUndefined, m_name = JUndefined, m_theme = JUndefined,
      m_create = JUndefined, m_r = JUndefined, m_c = JUndefined, m_marked = JUndefined \<rparr>"

definition probe_msg :: "jsval \<Rightarrow> msg" where
  "probe_msg gid = blank_msg\<lparr>m_type := JStr ''probe'', m_gameId := gid\<rparr>"

definition join_msg :: "jsval \<Rightarrow> jsval \<Rightarrow> jsval \<Rightarrow> msg" where
  "join_msg gid nm th =
    blank_msg\<lparr>m_type := JStr ''join'', m_gameId := gid, m_name := nm, m_theme := th\<rparr>"

definition mark_msg :: "jsval \<Rightarrow> jsval \<Rightarrow> jsval \<Rightarrow> msg" where
  "mark_msg r c b = blank_msg\<lparr>m_type := JStr ''mark'', m_r := r, m_c := c, m_marked := b\<rparr>"

definition bingo_msg :: msg where
  "bingo_msg = blank_msg\<lparr>m_type := JStr ''request_bingo''\<rparr>"

definition demo_env :: env where
  "demo_env = \<lparr> is_open = (\<lambda>s. True), now = 1000, rnd = (\<lambda>k. 0) \<rparr>"

definition later_env :: env where
  "later_env = \<lparr> is_open = (\<lambda>s. True), now = 2000, rnd = (\<lambda>k. 0) \<rparr>"

definition demo_ws :: conn where
  "demo_ws = \<lparr> ws_sock = 1, ws_id = ''k3x9q2a'', ws_playerId = None, ws_gameId = JUndefined \<rparr>"

definition room1 :: jsval where
  "room1 = JStr ''room1''"

definition alice_join :: msg where
  "alice_join = join_msg room1 (JStr ''Alice'') JUndefined"

text \<open>A mark message for every cell but the centre, which is what the client can send.\<close>

definition mark_all :: "msg list" where
  "mark_all =
    map (\<lambda>(r, c). mark_msg (JNum (of_nat r)) (JNum (of_nat c)) (JBool True))
      (filter nonfree cells_row_major)"

text \<open>The state the sample join leaves, and the same room once every cell is marked.\<close>

definition alice_ws :: conn where
  "alice_ws = demo_ws\<lparr>ws_playerId := Some ''k3x9q2a'', ws_gameId := room1\<rparr>"

definition alice :: player where
  "alice =
    \<lparr> p_id = ''k3x9q2a'', p_name = JStr ''Alice'', p_socket = 1,
      p_card = fill_blank cells_row_major empty_card,
      p_marks = fresh_marks[2 := AList.update 2 True (fresh_marks ! 2)] \<rparr>"

definition alice_room :: game where
  "alice_room = (new_game demo_env room1)\<lparr>hostId := Some ''k3x9q2a'', players := [(''k3x9q2a'', alice)]\<rparr>"

definition full_marks :: marks where
  "full_marks = replicate 5 [(0, True), (1, True), (2, True), (3, True), (4, True)]"

definition alice_full :: player where
  "alice_full = alice\<lparr>p_marks := full_marks\<rparr>"

definition full_room :: game where
  "full_room = alice_room\<lparr>players := [(''k3x9q2a'', alice_full)]\<rparr>"

text \<open>A second player in the sample room.\<close>

definition bob :: player where
  "bob = alice\<lparr>p_id := ''m7p0z1c'', p_name := JStr ''Bob'', p_socket := 2\<rparr>"

definition two_room :: game where
  "two_room = alice_room\<lparr>players := [(''k3x9q2a'', alice), (''m7p0z1c'', bob)]\<rparr>"

text \<open>The sample room after a win, the sample room with the catalog theme, and a second connection.\<close>

definition ended_room :: game where
  "ended_room = full_room\<lparr>status := Ended\<rparr>"





text \<open>
  A join whose \<^verbatim>\<open>gameId\<close> is the empty string, and the state it leaves: the room is
  stored under that id and the connection carries it as \<^verbatim>\<open>ws.gameId\<close>.
\<close>

definition blank_id :: jsval where
  "blank_id = JStr ''''"

definition blank_id_join :: msg where
  "blank_id_join = join_msg blank_id (JStr ''Alice'') JUndefined"

definition blank_id_ws :: conn where
  "blank_id_ws = demo_ws\<lparr>ws_playerId := Some ''k3x9q2a'', ws_gameId := blank_id\<rparr>"

definition blank_id_room :: game where
  "blank_id_room = alice_room\<lparr>gameId := blank_id\<rparr>"

section \<open>Verified properties\<close>

subsection \<open>Reading the mark grid\<close>

lemma marks_row_of_nat:
  "marks_row m (of_nat r) = (if r < length m then Some (m ! r) else None)"
  by (simp add: marks_row_def)

lemma mark_truthy_in_range:
  "r < length m \<Longrightarrow> mark_truthy m r c = Some (mark_at m r c = Some True)"
  by (auto simp: mark_truthy_def marks_row_of_nat mark_at_def split: option.splits)

lemma scan_marks_all:
  "\<forall>(r, c) \<in> set ps. r < length m \<Longrightarrow>
   scan_marks m ps = Inr (\<forall>(r, c) \<in> set ps. (r, c) \<noteq> (2, 2) \<longrightarrow> mark_at m r c = Some True)"
proof (induction ps)
  case Nil
  then show ?case by simp
next
  case (Cons p ps)
  obtain r c where p: "p = (r, c)" by (cases p)
  from Cons.prems have r: "r < length m" and rest: "\<forall>(r, c) \<in> set ps. r < length m"
    by (auto simp: p)
  show ?case
    using Cons.IH [OF rest] r by (auto simp: p mark_truthy_in_range)
qed

lemma set_cells_row_major: "set cells_row_major = set [0..<5] \<times> set [0..<5]"
  by (auto simp: cells_row_major_def)

text \<open>On a grid of five rows the loop of \<^verbatim>\<open>isCardComplete\<close> decides the completion rule.\<close>

lemma isCardComplete_iff:
  assumes "length (p_marks p) = 5"
  shows "isCardComplete p = Inr (all_nonfree_marked (p_marks p))"
proof -
  have "\<forall>(r, c) \<in> set cells_row_major. r < length (p_marks p)"
    using assms by (auto simp: set_cells_row_major)
  then have "isCardComplete p =
      Inr (\<forall>(r, c) \<in> set cells_row_major. (r, c) \<noteq> (2, 2) \<longrightarrow> mark_at (p_marks p) r c = Some True)"
    unfolding isCardComplete_def by (rule scan_marks_all)
  also have "(\<forall>(r, c) \<in> set cells_row_major. (r, c) \<noteq> (2, 2) \<longrightarrow> mark_at (p_marks p) r c = Some True)
      = all_nonfree_marked (p_marks p)"
    unfolding set_cells_row_major all_nonfree_marked_def by auto
  finally show ?thesis .
qed

lemma alice_not_complete: "\<not> all_nonfree_marked (p_marks alice)"
  by code_simp

lemma alice_full_complete: "all_nonfree_marked (p_marks alice_full)"
  by code_simp

subsection \<open>Win validation\<close>

text \<open>
  A connection the listener accepts as joined: \<^verbatim>\<open>ws.gameId\<close> is truthy and names a
  room, and \<^verbatim>\<open>ws.playerId\<close> names a player of it. For such a player (whose grid has
  the five rows every join creates), \<^verbatim>\<open>request_bingo\<close> succeeds exactly when all 24
  cells other than \<open>(2, 2)\<close> hold \<^verbatim>\<open>true\<close>. On success the room is written back with
  status \<open>Ended\<close>, a \<^verbatim>\<open>bingo\<close> message and then the state go to every open socket of
  the room. On failure the registry and the connection are returned as they were and
  the only output is \<^verbatim>\<open>invalid_bingo\<close> to the caller.
\<close>

lemma request_bingo_iff_all_marked:
  assumes "truthy (ws_gameId ws)"
    and "map_of games (ws_gameId ws) = Some g"
    and "ws_playerId ws = Some pid"
    and "map_of (players g) pid = Some pl"
    and "length (p_marks pl) = 5"
    and "m_type m = JStr ''request_bingo''"
  shows "on_message e games ws m =
    (if all_nonfree_marked (p_marks pl) then
       Inr (AList.update (ws_gameId ws) (g\<lparr>status := Ended, updatedAt := now e\<rparr>) games, ws,
            map (\<lambda>s. (s, Bingo (p_id pl) (p_name pl))) (open_sockets e g)
            @ map (\<lambda>s. (s, State (serializeGame (g\<lparr>status := Ended, updatedAt := now e\<rparr>))))
                (open_sockets e g))
     else
       Inr (games, ws,
            if is_open e (ws_sock ws) then [(ws_sock ws, Error ''invalid_bingo'')] else []))"
  using assms
  by (simp add: on_message_def handle_request_bingo_def isCardComplete_iff sendError_def
      broadcastGame_def open_sockets_def Let_def)

lemma request_bingo_iff_all_marked_sample:
  "truthy (ws_gameId alice_ws)
   \<and> map_of [(room1, alice_room)] (ws_gameId alice_ws) = Some alice_room
   \<and> map_of [(room1, full_room)] (ws_gameId alice_ws) = Some full_room
   \<and> ws_playerId alice_ws = Some ''k3x9q2a''
   \<and> map_of (players alice_room) ''k3x9q2a'' = Some alice
   \<and> map_of (players full_room) ''k3x9q2a'' = Some alice_full
   \<and> length (p_marks alice) = 5 \<and> length (p_marks alice_full) = 5
   \<and> m_type bingo_msg = JStr ''request_bingo''
   \<and> on_message later_env [(room1, alice_room)] alice_ws bingo_msg =
       Inr ([(room1, alice_room)], alice_ws, [(1, Error ''invalid_bingo'')])
   \<and> on_message later_env [(room1, full_room)] alice_ws bingo_msg =
       Inr ([(room1, full_room\<lparr>status := Ended, updatedAt := 2000\<rparr>)], alice_ws,
            [(1, Bingo ''k3x9q2a'' (JStr ''Alice'')),
             (1, State (serializeGame (full_room\<lparr>status := Ended, updatedAt := 2000\<rparr>)))])"
proof -
  have h: "truthy (ws_gameId alice_ws)" "ws_playerId alice_ws = Some ''k3x9q2a''"
    "m_type bingo_msg = JStr ''request_bingo''"
    by (simp_all add: alice_ws_def room1_def bingo_msg_def blank_msg_def)
  have r1: "map_of [(room1, alice_room)] (ws_gameId alice_ws) = Some alice_room"
    and r2: "map_of [(room1, full_room)] (ws_gameId alice_ws) = Some full_room"
    by (simp_all add: alice_ws_def)
  have p1: "map_of (players alice_room) ''k3x9q2a'' = Some alice"
    and p2: "map_of (players full_room) ''k3x9q2a'' = Some alice_full"
    by (simp_all add: alice_room_def full_room_def)
  have l1: "length (p_marks alice) = 5" and l2: "length (p_marks alice_full) = 5"
    by (simp_all add: alice_def alice_full_def fresh_marks_def full_marks_def)
  have os: "open_sockets later_env full_room = [1]" "\<And>s. is_open later_env s"
    "ws_sock alice_ws = 1" "ws_gameId alice_ws = room1" "now later_env = 2000"
    "p_id alice_full = ''k3x9q2a''" "p_name alice_full = JStr ''Alice''"
    by (simp_all add: open_sockets_def later_env_def full_room_def alice_full_def alice_def
        alice_ws_def demo_ws_def)
  have c1: "on_message later_env [(room1, alice_room)] alice_ws bingo_msg =
       Inr ([(room1, alice_room)], alice_ws, [(1, Error ''invalid_bingo'')])"
    using request_bingo_iff_all_marked [OF h(1) r1 h(2) p1 l1 h(3), of later_env]
    by (simp add: os alice_not_complete)
  have c2: "on_message later_env [(room1, full_room)] alice_ws bingo_msg =
       Inr ([(room1, full_room\<lparr>status := Ended, updatedAt := 2000\<rparr>)], alice_ws,
            [(1, Bingo ''k3x9q2a'' (JStr ''Alice'')),
             (1, State (serializeGame (full_room\<lparr>status := Ended, updatedAt := 2000\<rparr>)))])"
    using request_bingo_iff_all_marked [OF h(1) r2 h(2) p2 l2 h(3), of later_env]
    by (simp add: os alice_full_complete)
  show ?thesis
    by (intro conjI; fact)
qed

text \<open>
  C1. A join whose \<^verbatim>\<open>gameId\<close> is the empty string registers the player, makes it host
  and answers \<^verbatim>\<open>joined\<close>, but leaves a falsy \<^verbatim>\<open>ws.gameId\<close> on the connection. That
  player's \<^verbatim>\<open>request_bingo\<close>, with a grid that is not complete, is answered with
  \<^verbatim>\<open>not_joined\<close>, not with \<^verbatim>\<open>invalid_bingo\<close>.
\<close>

theorem falsy_game_id_bingo_gets_not_joined:
  "reply_games (on_frame demo_env [] demo_ws (Parsed blank_id_join)) = Some [(blank_id, blank_id_room)]
   \<and> map fst (players blank_id_room) = [''k3x9q2a'']
   \<and> hostId blank_id_room = Some ''k3x9q2a''
   \<and> isCardComplete alice = Inr False
   \<and> map_of (players blank_id_room) ''k3x9q2a'' = Some alice
   \<and> reply_outs (on_frame demo_env [] demo_ws (Parsed blank_id_join)) =
       [(1, Joined ''k3x9q2a'' (serializeGame blank_id_room)),
        (1, State (serializeGame blank_id_room))]
   \<and> on_frame later_env [(blank_id, blank_id_room)] blank_id_ws (Parsed bingo_msg) =
       Inr ([(blank_id, blank_id_room)], blank_id_ws, [(1, Error ''not_joined'')])"
  by code_simp

subsection \<open>Messages before a join\<close>

text \<open>
  While \<^verbatim>\<open>ws.gameId\<close> is falsy, an envelope of any type other than \<^verbatim>\<open>probe\<close> and
  \<^verbatim>\<open>join\<close> (a \<^verbatim>\<open>mark\<close>, a \<^verbatim>\<open>request_bingo\<close>, an unknown or a missing type) leaves
  the registry and the connection as they were, and the only output is one
  \<^verbatim>\<open>not_joined\<close> error, written to the sender when its socket is open.
\<close>

lemma unbound_gets_not_joined:
  assumes "\<not> truthy (ws_gameId ws)"
    and "m_type m \<noteq> JStr ''probe''" and "m_type m \<noteq> JStr ''join''"
  shows "on_message e games ws m =
    Inr (games, ws, if is_open e (ws_sock ws) then [(ws_sock ws, Error ''not_joined'')] else [])"
  using assms by (simp add: on_message_def sendError_def)

lemma unbound_gets_not_joined_sample:
  "\<not> truthy (ws_gameId demo_ws)
   \<and> m_type (mark_msg (JNum 0) (JNum 9) (JBool True)) \<noteq> JStr ''probe''
   \<and> m_type (mark_msg (JNum 0) (JNum 9) (JBool True)) \<noteq> JStr ''join''
   \<and> on_message demo_env [(room1, alice_room)] demo_ws (mark_msg (JNum 0) (JNum 9) (JBool True)) =
       Inr ([(room1, alice_room)], demo_ws, [(1, Error ''not_joined'')])"
proof -
  have h: "\<not> truthy (ws_gameId demo_ws)"
    "m_type (mark_msg (JNum 0) (JNum 9) (JBool True)) \<noteq> JStr ''probe''"
    "m_type (mark_msg (JNum 0) (JNum 9) (JBool True)) \<noteq> JStr ''join''"
    by (simp_all add: demo_ws_def mark_msg_def blank_msg_def)
  have c: "on_message demo_env [(room1, alice_room)] demo_ws (mark_msg (JNum 0) (JNum 9) (JBool True)) =
       Inr ([(room1, alice_room)], demo_ws, [(1, Error ''not_joined'')])"
    using unbound_gets_not_joined [OF h, of demo_env "[(room1, alice_room)]"]
    by (simp add: demo_env_def demo_ws_def)
  show ?thesis
    by (intro conjI; fact)
qed

text \<open>The same for frames: an unparseable one is answered with \<^verbatim>\<open>invalid_json\<close>.\<close>

lemma unbound_frame_reply:
  assumes "\<not> truthy (ws_gameId ws)"
  shows "on_frame e games ws Unparseable =
           Inr (games, ws, if is_open e (ws_sock ws) then [(ws_sock ws, Error ''invalid_json'')] else [])"
    and "m_type m \<noteq> JStr ''probe'' \<Longrightarrow> m_type m \<noteq> JStr ''join'' \<Longrightarrow>
         on_frame e games ws (Parsed m) =
           Inr (games, ws, if is_open e (ws_sock ws) then [(ws_sock ws, Error ''not_joined'')] else [])"
  using assms by (simp_all add: on_frame_def on_message_def sendError_def)

text \<open>
  C10. On a connection that has not joined, the frame \<^verbatim>\<open>null\<close>, which carries no
  \<^verbatim>\<open>probe\<close> or \<^verbatim>\<open>join\<close> type, is not answered with \<^verbatim>\<open>not_joined\<close>: it parses, and
  \<^verbatim>\<open>const { type } = msg\<close> throws a TypeError before anything is sent.
\<close>

theorem null_frame_throws:
  "ws_gameId demo_ws = JUndefined \<and> ws_playerId demo_ws = None
   \<and> on_frame demo_env [] demo_ws ParsedNull = Inl TypeError
   \<and> reply_outs (on_frame demo_env [] demo_ws ParsedNull) = []"
  by code_simp

subsection \<open>Probing\<close>

text \<open>
  C5. A \<^verbatim>\<open>probe\<close> for a game id the registry does not hold answers
  \<^verbatim>\<open>exists: false\<close> to the sender and returns the registry and the connection
  unchanged; a second probe of the same id therefore gets the same answer.
\<close>

theorem probe_unseen_no_effect:
  assumes "m_type m = JStr ''probe''"
    and "map_of games (gameId_of m) = None"
  shows "on_message e games ws m = Inr (games, ws, [(ws_sock ws, GameExists False None)])
    \<and> run_messages e games ws [m, m] =
        Inr (games, ws, [(ws_sock ws, GameExists False None), (ws_sock ws, GameExists False None)])"
  using assms by (simp add: on_message_def handle_probe_def)

theorem probe_unseen_no_effect_witness:
  "m_type (probe_msg (JStr ''room2'')) = JStr ''probe''
   \<and> map_of [(room1, alice_room)] (gameId_of (probe_msg (JStr ''room2''))) = None
   \<and> on_message demo_env [(room1, alice_room)] demo_ws (probe_msg (JStr ''room2'')) =
       Inr ([(room1, alice_room)], demo_ws, [(1, GameExists False None)])
   \<and> run_messages demo_env [(room1, alice_room)] demo_ws
         [probe_msg (JStr ''room2''), probe_msg (JStr ''room2'')] =
       Inr ([(room1, alice_room)], demo_ws, [(1, GameExists False None), (1, GameExists False None)])"
proof -
  have h: "m_type (probe_msg (JStr ''room2'')) = JStr ''probe''"
    "map_of [(room1, alice_room)] (gameId_of (probe_msg (JStr ''room2''))) = None"
    by (simp_all add: probe_msg_def blank_msg_def gameId_of_def with_default_def room1_def)
  have s: "ws_sock demo_ws = 1"
    by (simp add: demo_ws_def)
  note c = probe_unseen_no_effect [OF h, of demo_env demo_ws, unfolded s]
  show ?thesis
    by (intro conjI h c [THEN conjunct1] c [THEN conjunct2])
qed

subsection \<open>Closing a connection\<close>

lemma keys_update_present:
  "map_of al k = Some v \<Longrightarrow> map fst (AList.update k v' al) = map fst al"
  by (induction al) (auto split: if_splits)

text \<open>
  The \<^verbatim>\<open>close\<close> listener never changes which game ids the registry holds. When
  \<^verbatim>\<open>ws.gameId\<close> is truthy and names a room and \<^verbatim>\<open>ws.playerId\<close> is set, the room is
  written back with that player removed from its player map. If the player was host,
  \<open>hostId\<close> becomes the first remaining key of the player map, or \<open>None\<close> when no
  player remains; otherwise \<open>hostId\<close> is kept.
\<close>

lemma close_removes_player_keeps_room:
  "map fst (fst (on_close e games ws)) = map fst games \<and>
   (truthy (ws_gameId ws) \<and> map_of games (ws_gameId ws) = Some g \<and> ws_playerId ws = Some pid \<longrightarrow>
     (\<exists>g'. map_of (fst (on_close e games ws)) (ws_gameId ws) = Some g'
        \<and> players g' = AList.delete pid (players g)
        \<and> map_of (players g') pid = None
        \<and> (hostId g = Some pid \<longrightarrow>
             (players g' = [] \<longrightarrow> hostId g' = None)
           \<and> (players g' \<noteq> [] \<longrightarrow> hostId g' = Some (fst (hd (players g')))
                \<and> fst (hd (players g')) \<in> fst ` set (players g) - {pid}))
        \<and> (hostId g \<noteq> Some pid \<longrightarrow> hostId g' = hostId g)))"
proof (intro conjI impI)
  show "map fst (fst (on_close e games ws)) = map fst games"
    by (auto simp: on_close_def Let_def keys_update_present split: option.splits)
next
  assume a: "truthy (ws_gameId ws) \<and> map_of games (ws_gameId ws) = Some g \<and> ws_playerId ws = Some pid"
  let ?ps = "AList.delete pid (players g)"
  have hd_in: "?ps \<noteq> [] \<Longrightarrow> fst (hd ?ps) \<in> fst ` set (players g) - {pid}"
  proof -
    assume "?ps \<noteq> []"
    then have "hd ?ps \<in> set ?ps" by simp
    then show ?thesis by (auto simp: AList.delete_eq)
  qed
  have gone: "map_of ?ps pid = None"
    by (simp add: delete_conv')
  define g' where "g' = g\<lparr>players := ?ps,
      hostId := (if hostId g = Some pid then (case ?ps of [] \<Rightarrow> None | kv # rest \<Rightarrow> Some (fst kv))
                 else hostId g),
      updatedAt := now e\<rparr>"
  have res: "fst (on_close e games ws) = AList.update (ws_gameId ws) g' games"
    using a by (auto simp: on_close_def Let_def g'_def)
  have "map_of (fst (on_close e games ws)) (ws_gameId ws) = Some g'"
    by (simp add: res update_conv')
  moreover have "players g' = ?ps" by (simp add: g'_def)
  moreover have "hostId g \<noteq> Some pid \<longrightarrow> hostId g' = hostId g" by (simp add: g'_def)
  moreover have "hostId g = Some pid \<longrightarrow> (?ps = [] \<longrightarrow> hostId g' = None)
      \<and> (?ps \<noteq> [] \<longrightarrow> hostId g' = Some (fst (hd ?ps)))"
    by (cases ?ps) (simp_all add: g'_def)
  ultimately show "\<exists>g'. map_of (fst (on_close e games ws)) (ws_gameId ws) = Some g'
        \<and> players g' = AList.delete pid (players g)
        \<and> map_of (players g') pid = None
        \<and> (hostId g = Some pid \<longrightarrow>
             (players g' = [] \<longrightarrow> hostId g' = None)
           \<and> (players g' \<noteq> [] \<longrightarrow> hostId g' = Some (fst (hd (players g')))
                \<and> fst (hd (players g')) \<in> fst ` set (players g) - {pid}))
        \<and> (hostId g \<noteq> Some pid \<longrightarrow> hostId g' = hostId g)"
    using gone hd_in by (intro exI [of _ g']) simp
qed

lemma close_removes_player_keeps_room_sample:
  "map fst (fst (on_close later_env [(room1, two_room)] alice_ws)) = map fst [(room1, two_room)]
   \<and> truthy (ws_gameId alice_ws)
   \<and> map_of [(room1, two_room)] (ws_gameId alice_ws) = Some two_room
   \<and> ws_playerId alice_ws = Some ''k3x9q2a''
   \<and> hostId two_room = Some ''k3x9q2a''
   \<and> map_option players (map_of (fst (on_close later_env [(room1, two_room)] alice_ws)) (ws_gameId alice_ws))
       = Some [(''m7p0z1c'', bob)]
   \<and> map_option hostId (map_of (fst (on_close later_env [(room1, two_room)] alice_ws)) (ws_gameId alice_ws))
       = Some (Some ''m7p0z1c'')"
proof -
  have h: "truthy (ws_gameId alice_ws)"
    "map_of [(room1, two_room)] (ws_gameId alice_ws) = Some two_room"
    "ws_playerId alice_ws = Some ''k3x9q2a''"
    by (simp_all add: alice_ws_def room1_def)
  have host: "hostId two_room = Some ''k3x9q2a''"
    by (simp add: two_room_def alice_room_def)
  have del: "AList.delete ''k3x9q2a'' (players two_room) = [(''m7p0z1c'', bob)]"
    by (simp add: two_room_def AList.delete_eq)
  note c = close_removes_player_keeps_room
    [of later_env "[(room1, two_room)]" alice_ws two_room "''k3x9q2a''"]
  have keys: "map fst (fst (on_close later_env [(room1, two_room)] alice_ws)) = map fst [(room1, two_room)]"
    using c by (rule conjunct1)
  from c h obtain g' where g':
    "map_of (fst (on_close later_env [(room1, two_room)] alice_ws)) (ws_gameId alice_ws) = Some g'"
    "players g' = AList.delete ''k3x9q2a'' (players two_room)"
    "hostId two_room = Some ''k3x9q2a'' \<longrightarrow>
       (players g' = [] \<longrightarrow> hostId g' = None)
       \<and> (players g' \<noteq> [] \<longrightarrow> hostId g' = Some (fst (hd (players g')))
            \<and> fst (hd (players g')) \<in> fst ` set (players two_room) - {''k3x9q2a''})"
    by blast
  have pl: "map_option players (map_of (fst (on_close later_env [(room1, two_room)] alice_ws)) (ws_gameId alice_ws))
       = Some [(''m7p0z1c'', bob)]"
    by (simp add: g' del)
  have ho: "map_option hostId (map_of (fst (on_close later_env [(room1, two_room)] alice_ws)) (ws_gameId alice_ws))
       = Some (Some ''m7p0z1c'')"
    using g'(3) host by (simp add: g'(1,2) del)
  show ?thesis
    by (intro conjI; fact)
qed

text \<open>
  C9. The connection that joined under the empty string as \<^verbatim>\<open>gameId\<close> is bound to a
  player that is host of its room. When it closes, \<^verbatim>\<open>if (!gameId) return\<close> leaves the
  listener before \<^verbatim>\<open>players.delete\<close>: the registry is returned as it was, the player is
  still in the player map and is still host, and nothing is broadcast.
\<close>

theorem falsy_game_id_close_keeps_player:
  "on_frame demo_env [] demo_ws (Parsed blank_id_join) =
     Inr ([(blank_id, blank_id_room)], blank_id_ws,
          [(1, Joined ''k3x9q2a'' (serializeGame blank_id_room)),
           (1, State (serializeGame blank_id_room))])
   \<and> ws_playerId blank_id_ws = Some ''k3x9q2a''
   \<and> ws_gameId blank_id_ws = JStr []
   \<and> on_close later_env [(blank_id, blank_id_room)] blank_id_ws = ([(blank_id, blank_id_room)], [])
   \<and> map fst (players blank_id_room) = [''k3x9q2a'']
   \<and> hostId blank_id_room = Some ''k3x9q2a''"
  by code_simp

subsection \<open>Card generation\<close>

lemma length_swap_at [simp]: "length (swap_at i j xs) = length xs"
  by (simp add: swap_at_def)

lemma mset_swap_at: "i < length xs \<Longrightarrow> j < length xs \<Longrightarrow> mset (swap_at i j xs) = mset xs"
  unfolding swap_at_def by (rule mset_swap)

lemma mset_shuffle_loop:
  "n < length xs \<Longrightarrow> mset (fst (shuffle_loop rn k n xs)) = mset xs"
proof (induction n arbitrary: k xs)
  case 0
  then show ?case by simp
next
  case (Suc n)
  have "rn k mod (Suc n + 1) < Suc n + 1"
    by simp
  then have j: "rn k mod (Suc n + 1) < length xs"
    using Suc.prems by linarith
  have "mset (swap_at (Suc n) (rn k mod (Suc n + 1)) xs) = mset xs"
    using Suc.prems j by (simp add: mset_swap_at)
  moreover have "n < length (swap_at (Suc n) (rn k mod (Suc n + 1)) xs)"
    using Suc.prems by simp
  ultimately show ?case
    using Suc.IH [of "swap_at (Suc n) (rn k mod (Suc n + 1)) xs" "Suc k"]
    by (simp add: Let_def)
qed

lemma mset_shuffle: "mset (fst (shuffle rn k xs)) = mset xs"
proof (cases xs)
  case Nil
  then show ?thesis by (simp add: shuffle_def)
next
  case (Cons x ys)
  then have "length xs - 1 < length xs" by simp
  then show ?thesis unfolding shuffle_def by (rule mset_shuffle_loop)
qed

lemma is_grid5_iff: "is_grid5 g \<longleftrightarrow> length g = 5 \<and> (\<forall>r<5. length (g ! r) = 5)"
  by (auto simp: is_grid5_def list_all_length)

lemma is_grid5_set_cell: "is_grid5 g \<Longrightarrow> is_grid5 (set_cell r c v g)"
proof (cases "r < length g")
  case True
  assume "is_grid5 g"
  with True show ?thesis
    by (auto simp: is_grid5_iff set_cell_def nth_list_update)
next
  case False
  then have "set_cell r c v g = g"
    by (simp add: set_cell_def list_update_beyond)
  moreover assume "is_grid5 g"
  ultimately show ?thesis by simp
qed

lemma nth_set_cell:
  "is_grid5 g \<Longrightarrow> r < 5 \<Longrightarrow> c < 5 \<Longrightarrow> r' < 5 \<Longrightarrow> c' < 5 \<Longrightarrow>
   set_cell r c v g ! r' ! c' = (if r' = r \<and> c' = c then v else g ! r' ! c')"
  by (auto simp: is_grid5_iff set_cell_def nth_list_update)

lemma in_grid_Cons [simp]: "in_grid ((r, c) # ps) \<longleftrightarrow> r < 5 \<and> c < 5 \<and> in_grid ps"
  by (auto simp: in_grid_def)

lemma fill_themed_step:
  "\<exists>v pool' k'. fill_themed items rn ((r, c) # ps) (crd, pool, k)
      = fill_themed items rn ps (set_cell r c v crd, pool', k')"
  by (simp; blast)

lemma fill_themed_grid5:
  "is_grid5 crd \<Longrightarrow> is_grid5 (fst (fill_themed items rn ps (crd, pool, k)))"
  by (induction ps arbitrary: crd pool k) (auto simp: is_grid5_set_cell)

lemma fill_themed_frame:
  "is_grid5 crd \<Longrightarrow> in_grid ps \<Longrightarrow> r < 5 \<Longrightarrow> c < 5 \<Longrightarrow> (r, c) \<notin> set ps \<Longrightarrow>
   fst (fill_themed items rn ps (crd, pool, k)) ! r ! c = crd ! r ! c"
proof (induction ps arbitrary: crd pool k)
  case Nil
  then show ?case by simp
next
  case (Cons p ps)
  obtain r0 c0 where p: "p = (r0, c0)" by (cases p)
  from Cons.prems have rc: "r0 < 5" "c0 < 5" "in_grid ps" "(r, c) \<notin> set ps" "\<not> (r = r0 \<and> c = c0)"
    by (auto simp: p)
  obtain v pool' k' where step: "fill_themed items rn (p # ps) (crd, pool, k)
      = fill_themed items rn ps (set_cell r0 c0 v crd, pool', k')"
    unfolding p using fill_themed_step by blast
  have "fst (fill_themed items rn ps (set_cell r0 c0 v crd, pool', k')) ! r ! c
      = set_cell r0 c0 v crd ! r ! c"
    using Cons.prems(1,3,4) rc(3,4) by (intro Cons.IH is_grid5_set_cell)
  also have "\<dots> = crd ! r ! c"
    using Cons.prems(1,3,4) rc(1,2,5) by (auto simp: nth_set_cell)
  finally show ?case by (simp only: step)
qed

lemma fill_themed_cells:
  "is_grid5 crd \<Longrightarrow> in_grid ps \<Longrightarrow> distinct ps \<Longrightarrow> length (filter nonfree ps) \<le> length pool \<Longrightarrow>
   cells_of (fst (fill_themed items rn ps (crd, pool, k))) ps
     = map CStr (take (length (filter nonfree ps)) (rev pool))"
proof (induction ps arbitrary: crd pool k)
  case Nil
  then show ?case by (simp add: cells_of_def)
next
  case (Cons p ps)
  obtain r c where p: "p = (r, c)" by (cases p)
  from Cons.prems have rc: "r < 5" "c < 5" "in_grid ps" "(r, c) \<notin> set ps" "distinct ps"
    by (auto simp: p)
  show ?case
  proof (cases "r = 2 \<and> c = 2")
    case True
    then have nf: "filter nonfree (p # ps) = filter nonfree ps"
      by (simp add: p nonfree_def)
    have step: "fill_themed items rn (p # ps) (crd, pool, k)
        = fill_themed items rn ps (set_cell r c (CNum 0) crd, pool, k)"
      using True by (simp add: p)
    have g: "is_grid5 (set_cell r c (CNum 0) crd)"
      using Cons.prems(1) by (rule is_grid5_set_cell)
    have le: "length (filter nonfree ps) \<le> length pool"
      using Cons.prems(4) by (simp only: nf)
    show ?thesis
      using Cons.IH [OF g rc(3) rc(5) le, of k]
      by (simp only: step cells_of_def nf)
  next
    case False
    then have nf: "filter nonfree (p # ps) = p # filter nonfree ps"
      by (simp add: p nonfree_def)
    with Cons.prems(4) have pool: "pool \<noteq> []" and le: "length (filter nonfree ps) \<le> length (butlast pool)"
      by auto
    let ?crd = "set_cell r c (CStr (last pool)) crd"
    let ?res = "fst (fill_themed items rn ps (?crd, butlast pool, k))"
    have step: "fill_themed items rn (p # ps) (crd, pool, k)
        = fill_themed items rn ps (?crd, butlast pool, k)"
      using False pool by (auto simp: p)
    have g: "is_grid5 ?crd"
      using Cons.prems(1) by (rule is_grid5_set_cell)
    have "?res ! r ! c = ?crd ! r ! c"
      using g rc(3) rc(1) rc(2) rc(4) by (rule fill_themed_frame)
    then have here: "?res ! r ! c = CStr (last pool)"
      using Cons.prems(1) rc(1,2) by (simp add: nth_set_cell)
    have "rev pool = rev (butlast pool @ [last pool])"
      using pool by simp
    then have rv: "rev pool = last pool # rev (butlast pool)"
      by simp
    have "cells_of ?res (p # ps) = ?res ! r ! c # cells_of ?res ps"
      by (simp only: cells_of_def nf) (simp add: p)
    also have "\<dots> = CStr (last pool) # map CStr (take (length (filter nonfree ps)) (rev (butlast pool)))"
      using Cons.IH [OF g rc(3) rc(5) le, of k] here by simp
    also have "\<dots> = map CStr (take (length (filter nonfree (p # ps))) (rev pool))"
      by (simp only: nf rv) simp
    finally show ?thesis by (simp only: step)
  qed
qed

lemma fill_themed_centre:
  "is_grid5 crd \<Longrightarrow> in_grid ps \<Longrightarrow> distinct ps \<Longrightarrow> (2, 2) \<in> set ps \<Longrightarrow>
   fst (fill_themed items rn ps (crd, pool, k)) ! 2 ! 2 = CNum 0"
proof (induction ps arbitrary: crd pool k)
  case Nil
  then show ?case by simp
next
  case (Cons p ps)
  obtain r c where p: "p = (r, c)" by (cases p)
  from Cons.prems have rc: "r < 5" "c < 5" "in_grid ps" "(r, c) \<notin> set ps" "distinct ps"
    by (auto simp: p)
  show ?case
  proof (cases "r = 2 \<and> c = 2")
    case True
    have step: "fill_themed items rn (p # ps) (crd, pool, k)
        = fill_themed items rn ps (set_cell 2 2 (CNum 0) crd, pool, k)"
      using True by (simp add: p)
    have g: "is_grid5 (set_cell 2 2 (CNum 0) crd)"
      using Cons.prems(1) by (rule is_grid5_set_cell)
    have out: "(2, 2) \<notin> set ps" using rc(4) True by simp
    have "fst (fill_themed items rn ps (set_cell 2 2 (CNum 0) crd, pool, k)) ! 2 ! 2
        = set_cell 2 2 (CNum 0) crd ! 2 ! 2"
      using g rc(3) _ _ out by (rule fill_themed_frame) simp_all
    also have "\<dots> = CNum 0"
      using Cons.prems(1) by (simp add: nth_set_cell)
    finally show ?thesis by (simp only: step)
  next
    case False
    with Cons.prems(4) have inps: "(2, 2) \<in> set ps" by (auto simp: p)
    obtain v pool' k' where step: "fill_themed items rn (p # ps) (crd, pool, k)
        = fill_themed items rn ps (set_cell r c v crd, pool', k')"
      unfolding p using fill_themed_step by blast
    have g: "is_grid5 (set_cell r c v crd)"
      using Cons.prems(1) by (rule is_grid5_set_cell)
    show ?thesis
      using Cons.IH [OF g rc(3) rc(5) inps] by (simp only: step)
  qed
qed


lemma in_grid_cells_row_major: "in_grid cells_row_major"
  by (auto simp: in_grid_def set_cells_row_major)

lemma distinct_cells_row_major: "distinct cells_row_major"
  by code_simp

lemma centre_in_cells_row_major: "(2, 2) \<in> set cells_row_major"
  by (simp add: set_cells_row_major)

lemma length_nonfree_cells_row_major: "length (filter nonfree cells_row_major) = 24"
  by code_simp

lemma is_grid5_empty_card: "is_grid5 empty_card"
  by code_simp

lemma nonfree_cells_eq: "nonfree_cells crd = cells_of crd cells_row_major"
  by (simp add: nonfree_cells_def)

lemma generateCard_themed:
  assumes "distinct items" and "24 \<le> length items"
  shows "is_grid5 (fst (generateCard rn k (Some items)))"
    and "fst (generateCard rn k (Some items)) ! 2 ! 2 = CNum 0"
    and "\<exists>pool. mset pool = mset items
           \<and> nonfree_cells (fst (generateCard rn k (Some items))) = map CStr (take 24 (rev pool))"
proof -
  obtain pool k1 where sh: "shuffle rn k items = (pool, k1)" by (cases "shuffle rn k items")
  have ms: "mset pool = mset items"
    using mset_shuffle [of rn k items] by (simp add: sh)
  then have len: "length pool = length items"
    by (metis size_mset)
  let ?fill = "fill_themed items rn cells_row_major (empty_card, pool, k1)"
  have ne: "items \<noteq> []"
    using assms(2) by auto
  have gen: "fst (generateCard rn k (Some items)) = fst ?fill"
    using ne by (simp add: generateCard_def sh case_prod_beta)
  show "is_grid5 (fst (generateCard rn k (Some items)))"
    unfolding gen by (rule fill_themed_grid5 [OF is_grid5_empty_card])
  show "fst (generateCard rn k (Some items)) ! 2 ! 2 = CNum 0"
    unfolding gen
    by (rule fill_themed_centre [OF is_grid5_empty_card in_grid_cells_row_major
          distinct_cells_row_major centre_in_cells_row_major])
  have "length (filter nonfree cells_row_major) \<le> length pool"
    using assms(2) len by (simp add: length_nonfree_cells_row_major)
  from fill_themed_cells [OF is_grid5_empty_card in_grid_cells_row_major
      distinct_cells_row_major this, of items rn k1]
  have "nonfree_cells (fst (generateCard rn k (Some items))) = map CStr (take 24 (rev pool))"
    by (simp add: gen nonfree_cells_eq length_nonfree_cells_row_major)
  with ms show "\<exists>pool. mset pool = mset items
           \<and> nonfree_cells (fst (generateCard rn k (Some items))) = map CStr (take 24 (rev pool))"
    by blast
qed

lemma blank_card_grid5: "is_grid5 (fill_blank cells_row_major empty_card)"
  by code_simp

lemma blank_card_centre: "fill_blank cells_row_major empty_card ! 2 ! 2 = CNum 0"
  by code_simp

lemma blank_card_cells:
  "nonfree_cells (fill_blank cells_row_major empty_card) = replicate 24 (CStr [])"
  by code_simp

text \<open>
  C7. A theme's items are distinct strings. For such a pool with at least 24 items
  the generated card is a 5 by 5 grid whose cell \<open>(2, 2)\<close> is the number \<^verbatim>\<open>0\<close>, a value
  no pool holds, and whose 24 other cells are pairwise distinct strings of the pool,
  whatever the oracle returns. For an absent or an empty pool every other cell is the
  empty string. The function is total: it returns a card on every input.
\<close>

theorem generateCard_cells:
  "(distinct items \<and> 24 \<le> length items \<longrightarrow>
       is_grid5 (fst (generateCard rn k (Some items)))
     \<and> fst (generateCard rn k (Some items)) ! 2 ! 2 = CNum 0
     \<and> length (nonfree_cells (fst (generateCard rn k (Some items)))) = 24
     \<and> distinct (nonfree_cells (fst (generateCard rn k (Some items))))
     \<and> set (nonfree_cells (fst (generateCard rn k (Some items)))) \<subseteq> CStr ` set items)
   \<and> (pool = None \<or> pool = Some [] \<longrightarrow>
       is_grid5 (fst (generateCard rn k pool))
     \<and> fst (generateCard rn k pool) ! 2 ! 2 = CNum 0
     \<and> nonfree_cells (fst (generateCard rn k pool)) = replicate 24 (CStr ''''))"
proof (intro conjI impI)
  assume a: "distinct items \<and> 24 \<le> length items"
  then have d: "distinct items" and l: "24 \<le> length items" by simp_all
  from generateCard_themed(3) [OF d l, of rn k] obtain pl where
    ms: "mset pl = mset items" and
    cells: "nonfree_cells (fst (generateCard rn k (Some items))) = map CStr (take 24 (rev pl))"
    by blast
  have dp: "distinct pl" using ms d by (metis mset_eq_imp_distinct_iff)
  have sp: "set pl = set items" using ms by (metis mset_eq_setD)
  have lp: "length pl = length items" using ms by (metis size_mset)
  show "is_grid5 (fst (generateCard rn k (Some items)))"
    using d l by (rule generateCard_themed(1))
  show "fst (generateCard rn k (Some items)) ! 2 ! 2 = CNum 0"
    using d l by (rule generateCard_themed(2))
  show "length (nonfree_cells (fst (generateCard rn k (Some items)))) = 24"
    using l lp by (simp add: cells)
  show "distinct (nonfree_cells (fst (generateCard rn k (Some items))))"
    using dp by (simp add: cells distinct_map inj_on_def)
  show "set (nonfree_cells (fst (generateCard rn k (Some items)))) \<subseteq> CStr ` set items"
    using sp set_take_subset [of 24 "rev pl"] by (auto simp: cells)
next
  assume "pool = None \<or> pool = Some []"
  then have gen: "fst (generateCard rn k pool) = fill_blank cells_row_major empty_card"
    by (auto simp: generateCard_def)
  show "is_grid5 (fst (generateCard rn k pool))"
    "fst (generateCard rn k pool) ! 2 ! 2 = CNum 0"
    "nonfree_cells (fst (generateCard rn k pool)) = replicate 24 (CStr '''')"
    unfolding gen by (rule blank_card_grid5 blank_card_centre blank_card_cells)+
qed

lemma ds9_items_theme: "distinct ds9_items" "24 \<le> length ds9_items"
  by code_simp+

theorem generateCard_cells_witness:
  "distinct ds9_items \<and> 24 \<le> length ds9_items
   \<and> is_grid5 (fst (generateCard (rnd demo_env) 0 (Some ds9_items)))
   \<and> fst (generateCard (rnd demo_env) 0 (Some ds9_items)) ! 2 ! 2 = CNum 0
   \<and> length (nonfree_cells (fst (generateCard (rnd demo_env) 0 (Some ds9_items)))) = 24
   \<and> distinct (nonfree_cells (fst (generateCard (rnd demo_env) 0 (Some ds9_items))))
   \<and> set (nonfree_cells (fst (generateCard (rnd demo_env) 0 (Some ds9_items)))) \<subseteq> CStr ` set ds9_items
   \<and> is_grid5 (fst (generateCard (rnd demo_env) 0 None))
   \<and> fst (generateCard (rnd demo_env) 0 None) ! 2 ! 2 = CNum 0
   \<and> nonfree_cells (fst (generateCard (rnd demo_env) 0 None)) = replicate 24 (CStr '''')"
  using generateCard_cells [of ds9_items "rnd demo_env" 0 None] ds9_items_theme
  by blast

subsection \<open>Joining\<close>

lemma gameId_of_default: "with_default (JStr ''default'') (gameId_of m) = gameId_of m"
  by (simp add: gameId_of_def with_default_def)

text \<open>The join listener in one equation: the theme step, then the room written back.\<close>

lemma handle_join_result:
  "handle_join e games ws m =
    (case apply_theme e 0 (theme_of m) (room_before e games (gameId_of m)) of
       Inl err \<Rightarrow> Inl err
     | Inr (g1, k1) \<Rightarrow>
         Inr (AList.update (gameId_of m) (joined_room e ws m g1 k1) games,
              ws\<lparr>ws_playerId := Some (ws_id ws), ws_gameId := gameId_of m\<rparr>,
              (ws_sock ws, Joined (ws_id ws) (serializeGame (joined_room e ws m g1 k1)))
              # broadcastGame e (joined_room e ws m g1 k1)))"
  by (auto simp: handle_join_def room_before_def getOrCreateGame_def gameId_of_default
      joined_room_def Let_def
      case_prod_beta split: option.splits sum.splits)

lemma on_message_join:
  "m_type m = JStr ''join'' \<Longrightarrow> on_message e games ws m = handle_join e games ws m"
  by (simp add: on_message_def)


lemma apply_theme_keeps:
  "apply_theme e k th g = Inr (g1, k1) \<Longrightarrow>
     status g1 = status g \<and> players g1 = players g \<and> hostId g1 = hostId g
     \<and> numbersCalled g1 = numbersCalled g"
  by (auto simp: apply_theme_def case_prod_beta split: if_splits themes_value.splits)

lemma apply_theme_returns:
  "\<forall>nm. THEMES_at th \<noteq> InheritedProp nm \<Longrightarrow> \<exists>g1 k1. apply_theme e k th g = Inr (g1, k1)"
  by (cases "THEMES_at th") (auto simp: apply_theme_def case_prod_beta)

lemma joined_room_status: "status (joined_room e ws m g1 k1) = status g1"
  by (simp add: joined_room_def Let_def)

text \<open>The sample states are the ones the listener produces from the empty registry.\<close>

lemma sample_join_state:
  "on_message demo_env [] demo_ws alice_join =
     Inr ([(room1, alice_room)], alice_ws,
          [(1, Joined ''k3x9q2a'' (serializeGame alice_room)), (1, State (serializeGame alice_room))])"
  by code_simp

lemma sample_marks_state:
  "reply_games (run_messages demo_env [(room1, alice_room)] alice_ws mark_all) = Some [(room1, full_room)]"
  by code_simp


text \<open>
  A join for a game id the registry does not hold, with a theme that is absent, falsy,
  a catalog key or no property of the catalog at all: the room is appended to the
  registry in status \<open>Lobby\<close> with an empty call history, the joiner is its only player
  and its host.
\<close>

lemma join_unseen_creates_room:
  assumes "m_type m = JStr ''join''" and "map_of games (gameId_of m) = None"
    and "\<forall>nm. THEMES_at (theme_of m) \<noteq> InheritedProp nm"
  shows "\<exists>g'. on_message e games ws m =
           Inr (games @ [(gameId_of m, g')],
                ws\<lparr>ws_playerId := Some (ws_id ws), ws_gameId := gameId_of m\<rparr>,
                (ws_sock ws, Joined (ws_id ws) (serializeGame g')) # broadcastGame e g')
         \<and> status g' = Lobby \<and> numbersCalled g' = [] \<and> hostId g' = Some (ws_id ws)
         \<and> map fst (players g') = [ws_id ws]"
proof -
  have upd: "AList.update (gameId_of m) g games = games @ [(gameId_of m, g)]" for g :: game
    using assms(2) by (induction games) (auto split: if_splits)
  have rb: "room_before e games (gameId_of m) = new_game e (gameId_of m)"
    using assms(2) by (simp add: room_before_def)
  have "\<exists>g1 k1. apply_theme e 0 (theme_of m) (new_game e (gameId_of m)) = Inr (g1, k1)"
    using assms(3) by (rule apply_theme_returns)
  then obtain g1 k1 where ap: "apply_theme e 0 (theme_of m) (new_game e (gameId_of m)) = Inr (g1, k1)"
    by blast
  have keep: "status g1 = Lobby" "players g1 = []" "hostId g1 = None" "numbersCalled g1 = []"
    using apply_theme_keeps [OF ap] by (simp_all add: new_game_def)
  show ?thesis
    using keep
    by (simp add: on_message_join [OF assms(1)] handle_join_result rb ap upd joined_room_def Let_def)
qed

text \<open>
  C6. With a theme that names a property the catalog object inherits, such as
  \<^verbatim>\<open>"constructor"\<close>, the same join does not succeed: \<^verbatim>\<open>THEMES[theme]\<close> is truthy,
  its \<^verbatim>\<open>items\<close> is \<^verbatim>\<open>undefined\<close>, and \<^verbatim>\<open>.slice()\<close> throws before any player is
  registered.
\<close>

theorem join_inherited_theme_throws:
  "on_message demo_env [] demo_ws (join_msg room1 (JStr ''Alice'') (JStr ''constructor''))
     = Inl TypeError"
  by code_simp

subsection \<open>Theme assignment\<close>




subsection \<open>After a confirmed bingo\<close>

lemma on_message_keeps_ended:
  assumes "map_of games gid = Some g" and "status g = Ended"
    and "on_message e games ws m = Inr (games', ws', outs)"
  shows "map_option status (map_of games' gid) = Some Ended"
proof (cases "m_type m = JStr ''join''")
  case True
  obtain g1 k1 where ap: "apply_theme e 0 (theme_of m) (room_before e games (gameId_of m)) = Inr (g1, k1)"
    and g': "games' = AList.update (gameId_of m) (joined_room e ws m g1 k1) games"
    using assms(3) by (auto simp: on_message_join [OF True] handle_join_result split: sum.splits)
  show ?thesis
  proof (cases "gameId_of m = gid")
    case True
    then have "room_before e games (gameId_of m) = g"
      using assms(1) by (simp add: room_before_def)
    then have "status g1 = Ended"
      using apply_theme_keeps [OF ap] assms(2) by simp
    then show ?thesis
      using True by (simp add: g' update_conv' joined_room_status)
  next
    case False
    then show ?thesis
      using assms(1,2) by (simp add: g' update_conv')
  qed
next
  case False
  then show ?thesis
    using assms
    by (auto simp: on_message_def handle_probe_def handle_mark_def handle_request_bingo_def
        Let_def update_conv'
        split: if_splits option.splits sum.splits jsval.splits)
qed

lemma on_close_keeps_ended:
  assumes "map_of games gid = Some g" and "status g = Ended"
  shows "map_option status (map_of (fst (on_close e games ws)) gid) = Some Ended"
  using assms
  by (auto simp: on_close_def Let_def update_conv' split: option.splits)

text \<open>
  From the empty registry: a join, a mark for each of the 24 cells and a
  \<^verbatim>\<open>request_bingo\<close> end the room with one \<^verbatim>\<open>bingo\<close> message; a second
  \<^verbatim>\<open>request_bingo\<close> is validated again and sends a second one.
\<close>

theorem second_bingo_is_broadcast:
  "map_option status
     (reply_room (run_messages demo_env [] demo_ws (alice_join # mark_all @ [bingo_msg])) room1)
     = Some Ended
   \<and> filter is_bingo
       (reply_outs (run_messages demo_env [] demo_ws (alice_join # mark_all @ [bingo_msg])))
     = [(1, Bingo ''k3x9q2a'' (JStr ''Alice''))]
   \<and> filter is_bingo
       (reply_outs (run_messages demo_env [] demo_ws (alice_join # mark_all @ [bingo_msg, bingo_msg])))
     = [(1, Bingo ''k3x9q2a'' (JStr ''Alice'')), (1, Bingo ''k3x9q2a'' (JStr ''Alice''))]"
  by code_simp

lemma on_frame_Parsed: "on_frame e games ws (Parsed m) = on_message e games ws m"
  by (simp add: on_frame_def)

lemma on_frame_keeps_ended:
  assumes "map_of games gid = Some g" and "status g = Ended"
    and "on_frame e games ws fr = Inr (games', ws', outs)"
  shows "map_option status (map_of games' gid) = Some Ended"
proof (cases fr)
  case Unparseable
  then have "games' = games"
    using assms(3) by (simp add: on_frame_def)
  then show ?thesis using assms(1,2) by simp
next
  case ParsedNull
  then show ?thesis using assms(3) by (simp add: on_frame_def)
next
  case (Parsed m)
  then have "on_message e games ws m = Inr (games', ws', outs)"
    using assms(3) by (simp add: on_frame_def)
  with assms(1,2) show ?thesis by (rule on_message_keeps_ended)
qed

text \<open>
  C2, as amended. Once a room's status is \<open>Ended\<close> it stays \<open>Ended\<close> under every later
  frame and every close. A \<^verbatim>\<open>request_bingo\<close> in an ended room is validated as in the
  lobby. Let the connection be one the listener accepts as joined (\<^verbatim>\<open>ws.gameId\<close> truthy
  and naming the room, \<^verbatim>\<open>ws.playerId\<close> naming a player of it with a grid of five rows):
  when the player's 24 non-free cells all hold \<^verbatim>\<open>true\<close>, \<^verbatim>\<open>bingo\<close> and the state go to
  every open socket once more and \<open>updatedAt\<close> is refreshed; otherwise the caller gets
  \<^verbatim>\<open>invalid_bingo\<close> and nothing changes.
\<close>

theorem ended_stays_ended_bingo_revalidated:
  "(map_of games gid = Some g \<and> status g = Ended \<longrightarrow>
      (\<forall>games' ws' outs. on_frame e games ws fr = Inr (games', ws', outs) \<longrightarrow>
         map_option status (map_of games' gid) = Some Ended)
      \<and> map_option status (map_of (fst (on_close e games ws)) gid) = Some Ended)
   \<and> (truthy (ws_gameId ws) \<and> map_of games (ws_gameId ws) = Some g \<and> status g = Ended
        \<and> ws_playerId ws = Some pid \<and> map_of (players g) pid = Some pl
        \<and> length (p_marks pl) = 5 \<and> m_type m = JStr ''request_bingo'' \<longrightarrow>
      on_frame e games ws (Parsed m) =
        (if all_nonfree_marked (p_marks pl) then
           Inr (AList.update (ws_gameId ws) (g\<lparr>updatedAt := now e\<rparr>) games, ws,
                map (\<lambda>s. (s, Bingo (p_id pl) (p_name pl))) (open_sockets e g)
                @ map (\<lambda>s. (s, State (serializeGame (g\<lparr>updatedAt := now e\<rparr>)))) (open_sockets e g))
         else
           Inr (games, ws,
                if is_open e (ws_sock ws) then [(ws_sock ws, Error ''invalid_bingo'')] else [])))"
proof (intro conjI impI allI)
  fix games' ws' outs
  assume "map_of games gid = Some g \<and> status g = Ended"
    and "on_frame e games ws fr = Inr (games', ws', outs)"
  then show "map_option status (map_of games' gid) = Some Ended"
    using on_frame_keeps_ended by blast
next
  assume "map_of games gid = Some g \<and> status g = Ended"
  then show "map_option status (map_of (fst (on_close e games ws)) gid) = Some Ended"
    using on_close_keeps_ended by blast
next
  assume a: "truthy (ws_gameId ws) \<and> map_of games (ws_gameId ws) = Some g \<and> status g = Ended
        \<and> ws_playerId ws = Some pid \<and> map_of (players g) pid = Some pl
        \<and> length (p_marks pl) = 5 \<and> m_type m = JStr ''request_bingo''"
  then have same: "g\<lparr>status := Ended, updatedAt := now e\<rparr> = g\<lparr>updatedAt := now e\<rparr>"
    by simp
  show "on_frame e games ws (Parsed m) =
        (if all_nonfree_marked (p_marks pl) then
           Inr (AList.update (ws_gameId ws) (g\<lparr>updatedAt := now e\<rparr>) games, ws,
                map (\<lambda>s. (s, Bingo (p_id pl) (p_name pl))) (open_sockets e g)
                @ map (\<lambda>s. (s, State (serializeGame (g\<lparr>updatedAt := now e\<rparr>)))) (open_sockets e g))
         else
           Inr (games, ws,
                if is_open e (ws_sock ws) then [(ws_sock ws, Error ''invalid_bingo'')] else []))"
    using a
    by (simp add: on_frame_Parsed on_message_def handle_request_bingo_def isCardComplete_iff
        sendError_def broadcastGame_def open_sockets_def Let_def same)
qed

theorem ended_stays_ended_bingo_revalidated_witness:
  "map_of [(room1, ended_room)] room1 = Some ended_room
   \<and> status ended_room = Ended
   \<and> truthy (ws_gameId alice_ws)
   \<and> map_of [(room1, ended_room)] (ws_gameId alice_ws) = Some ended_room
   \<and> ws_playerId alice_ws = Some ''k3x9q2a''
   \<and> map_of (players ended_room) ''k3x9q2a'' = Some alice_full
   \<and> length (p_marks alice_full) = 5
   \<and> m_type bingo_msg = JStr ''request_bingo''
   \<and> on_frame later_env [(room1, ended_room)] alice_ws (Parsed bingo_msg) =
       Inr ([(room1, ended_room\<lparr>updatedAt := 2000\<rparr>)], alice_ws,
            [(1, Bingo ''k3x9q2a'' (JStr ''Alice'')),
             (1, State (serializeGame (ended_room\<lparr>updatedAt := 2000\<rparr>)))])
   \<and> map_option status (map_of [(room1, ended_room\<lparr>updatedAt := 2000\<rparr>)] room1) = Some Ended
   \<and> map_option status (map_of (fst (on_close later_env [(room1, ended_room)] alice_ws)) room1)
       = Some Ended"
proof -
  have h: "map_of [(room1, ended_room)] room1 = Some ended_room" "status ended_room = Ended"
    "truthy (ws_gameId alice_ws)" "map_of [(room1, ended_room)] (ws_gameId alice_ws) = Some ended_room"
    "ws_playerId alice_ws = Some ''k3x9q2a''"
    "map_of (players ended_room) ''k3x9q2a'' = Some alice_full"
    "length (p_marks alice_full) = 5" "m_type bingo_msg = JStr ''request_bingo''"
    by (simp_all add: ended_room_def full_room_def alice_ws_def room1_def alice_full_def
        full_marks_def bingo_msg_def blank_msg_def)
  have os: "open_sockets later_env ended_room = [1]" "ws_gameId alice_ws = room1"
    "now later_env = 2000" "p_id alice_full = ''k3x9q2a''" "p_name alice_full = JStr ''Alice''"
    by (simp_all add: open_sockets_def later_env_def ended_room_def full_room_def alice_full_def
        alice_def alice_ws_def demo_ws_def)
  note c = ended_stays_ended_bingo_revalidated
    [of "[(room1, ended_room)]" room1 ended_room later_env alice_ws "Parsed bingo_msg"
      "''k3x9q2a''" alice_full bingo_msg]
  have c1: "on_frame later_env [(room1, ended_room)] alice_ws (Parsed bingo_msg) =
       Inr ([(room1, ended_room\<lparr>updatedAt := 2000\<rparr>)], alice_ws,
            [(1, Bingo ''k3x9q2a'' (JStr ''Alice'')),
             (1, State (serializeGame (ended_room\<lparr>updatedAt := 2000\<rparr>)))])"
    using c [THEN conjunct2] h by (simp add: os alice_full_complete)
  have c2: "map_option status (map_of [(room1, ended_room\<lparr>updatedAt := 2000\<rparr>)] room1) = Some Ended"
    using c [THEN conjunct1] h(1,2) c1 by blast
  have c3: "map_option status (map_of (fst (on_close later_env [(room1, ended_room)] alice_ws)) room1)
       = Some Ended"
    using c [THEN conjunct1] h(1,2) by blast
  show ?thesis
    by (intro conjI; fact)
qed

subsection \<open>Marking\<close>

text \<open>
  C3. The mark listener tests only \<^verbatim>\<open>typeof r\<close> and \<^verbatim>\<open>typeof c\<close>. For the joined
  sample player, row 5 makes \<^verbatim>\<open>player.marks[5][0] = true\<close> throw a TypeError, and
  column 7 of row 0 is stored and broadcast; neither is answered with
  \<^verbatim>\<open>invalid_mark\<close>.
\<close>

theorem mark_out_of_range_unchecked:
  "on_message demo_env [(room1, alice_room)] alice_ws (mark_msg (JNum 5) (JNum 0) (JBool True))
     = Inl TypeError
   \<and> map_option (\<lambda>p. map_of (p_marks p ! 0) 7)
        (reply_player
          (on_message demo_env [(room1, alice_room)] alice_ws (mark_msg (JNum 0) (JNum 7) (JBool True)))
          room1 ''k3x9q2a'')
     = Some (Some True)
   \<and> filter (\<lambda>out. snd out = Error ''invalid_mark'')
        (reply_outs
          (on_message demo_env [(room1, alice_room)] alice_ws (mark_msg (JNum 0) (JNum 7) (JBool True))))
     = []"
  by code_simp

subsection \<open>The free cell\<close>



















end
